theory Spec2Isabelle
  imports Main
begin

section \<open>Python values, exceptions and the vendor SDK\<close>

text \<open>
  The module \<^verbatim>\<open>Api/shared/utils/supabase.py\<close> is a singleton facade over the
  Supabase client library. The library itself is not part of the repository, so it is
  a parameter of the model: a function that answers every call made to it, either with
  a value or with a raised exception, and that may take the calls made before into
  account (the library keeps a session). Every call the facade makes is appended to a
  log, so that what was called, on which object, with which positional and keyword
  arguments, can be stated.
\<close>

datatype pyval =
    PNone
  | PStr string
  | PList "pyval list"
  | PDict "(string \<times> pyval) list"
  | PObj nat
  | PModule string
  | PAttr pyval string

datatype exn =
    ValueError string
  | AttributeError string
  | SdkError pyval

datatype sdk_call =
  Call (receiver: pyval) (meth: string) (args: "pyval list") (kwargs: "(string \<times> pyval) list")

type_synonym sdk = "sdk_call list \<Rightarrow> sdk_call \<Rightarrow> exn + pyval"

section \<open>The process state\<close>

text \<open>
  An object of class \<^verbatim>\<open>SupabaseManager\<close> has one attribute, \<^verbatim>\<open>client\<close>, which is
  unset until \<^verbatim>\<open>__new__\<close> assigns it. Objects live in a heap and are named by their
  address, so that "the same instance" is equality of addresses. The class attribute
  \<^verbatim>\<open>_instance\<close> is \<open>cls_instance\<close>.
\<close>

record manager =
  client :: "pyval option"

record proc =
  cls_instance :: "nat option"
  heap :: "manager list"
  calls :: "sdk_call list"

definition initial :: proc where
  "initial = \<lparr>cls_instance = None, heap = [], calls = []\<rparr>"

definition returnE :: "'a \<Rightarrow> proc \<Rightarrow> (exn + 'a) \<times> proc" where
  "returnE x s = (Inr x, s)"

definition bindE ::
  "(proc \<Rightarrow> (exn + 'a) \<times> proc) \<Rightarrow> ('a \<Rightarrow> proc \<Rightarrow> (exn + 'b) \<times> proc) \<Rightarrow> proc \<Rightarrow> (exn + 'b) \<times> proc"
where
  "bindE m f s = (case m s of (Inl e, s') \<Rightarrow> (Inl e, s') | (Inr x, s') \<Rightarrow> f x s')"

definition invoke ::
  "sdk \<Rightarrow> pyval \<Rightarrow> string \<Rightarrow> pyval list \<Rightarrow> (string \<times> pyval) list \<Rightarrow> proc \<Rightarrow> (exn + pyval) \<times> proc"
where
  "invoke lib recv m as kw s =
     (let c = Call recv m as kw in (lib (calls s) c, s\<lparr>calls := calls s @ [c]\<rparr>))"

section \<open>Construction: \<^verbatim>\<open>SupabaseManager.__new__\<close>\<close>

text \<open>
  \<^verbatim>\<open>SUPABASE_URL\<close> and \<^verbatim>\<open>SUPABASE_KEY\<close> are what \<^verbatim>\<open>os.getenv\<close> returned when the
  module was imported: a string, or \<^verbatim>\<open>None\<close>. Python's \<^verbatim>\<open>not v\<close> holds of \<^verbatim>\<open>None\<close>
  and of the empty string.
\<close>

fun py_not :: "string option \<Rightarrow> bool" where
  "py_not None = True"
| "py_not (Some v) = (v = [])"

definition config_message :: string where
  "config_message =
     ''SUPABASE_URL and SUPABASE_KEY must be set in .env. Please check your environment configuration.''"

text \<open>
  The new object is stored in \<^verbatim>\<open>cls._instance\<close> before \<^verbatim>\<open>create_client\<close> is called, and
  its \<^verbatim>\<open>client\<close> attribute is assigned after the call has returned.
\<close>

definition SupabaseManager_new ::
  "sdk \<Rightarrow> string option \<Rightarrow> string option \<Rightarrow> proc \<Rightarrow> (exn + nat) \<times> proc"
where
  "SupabaseManager_new lib SUPABASE_URL SUPABASE_KEY s =
     (case cls_instance s of
        Some a \<Rightarrow> (Inr a, s)
      | None \<Rightarrow>
          if py_not SUPABASE_URL \<or> py_not SUPABASE_KEY then (Inl (ValueError config_message), s)
          else
            (case (SUPABASE_URL, SUPABASE_KEY) of
               (Some u, Some k) \<Rightarrow>
                 (let a = length (heap s);
                      s1 = s\<lparr>heap := heap s @ [\<lparr>client = None\<rparr>], cls_instance := Some a\<rparr>
                  in case invoke lib (PModule ''supabase'') ''create_client'' [PStr u, PStr k] [] s1 of
                       (Inl e, s2) \<Rightarrow> (Inl e, s2)
                     | (Inr c, s2) \<Rightarrow> (Inr a, s2\<lparr>heap := (heap s2)[a := \<lparr>client = Some c\<rparr>]\<rparr>))
             | _ \<Rightarrow> (Inl (ValueError config_message), s)))"

section \<open>The forwarding methods\<close>

text \<open>
  \<^verbatim>\<open>self.client\<close> raises \<^verbatim>\<open>AttributeError\<close> when the attribute was never assigned.
  \<^verbatim>\<open>client.auth\<close> and \<^verbatim>\<open>client.storage\<close> are attribute reads on the client object.
\<close>

definition getattr_client :: "nat \<Rightarrow> proc \<Rightarrow> (exn + pyval) \<times> proc" where
  "getattr_client self s =
     (if self < length (heap s) then
        (case client (heap s ! self) of
           Some c \<Rightarrow> (Inr c, s)
         | None \<Rightarrow> (Inl (AttributeError ''client''), s))
      else (Inl (AttributeError ''client''), s))"

definition get_client :: "nat \<Rightarrow> proc \<Rightarrow> (exn + pyval) \<times> proc" where
  "get_client self = getattr_client self"

definition auth :: "nat \<Rightarrow> proc \<Rightarrow> (exn + pyval) \<times> proc" where
  "auth self = bindE (getattr_client self) (\<lambda>c. returnE (PAttr c ''auth''))"

definition storage :: "nat \<Rightarrow> proc \<Rightarrow> (exn + pyval) \<times> proc" where
  "storage self = bindE (getattr_client self) (\<lambda>c. returnE (PAttr c ''storage''))"

definition table :: "sdk \<Rightarrow> nat \<Rightarrow> string \<Rightarrow> proc \<Rightarrow> (exn + pyval) \<times> proc" where
  "table lib self table_name =
     bindE (getattr_client self) (\<lambda>c. invoke lib c ''table'' [PStr table_name] [])"

text \<open>
  The third parameter of \<^verbatim>\<open>sign_up\<close> has the default \<^verbatim>\<open>None\<close>: \<open>None\<close> below is the
  omitted argument, \<open>Some v\<close> the argument \<open>v\<close>.
\<close>

definition sign_up ::
  "sdk \<Rightarrow> nat \<Rightarrow> string \<Rightarrow> string \<Rightarrow> pyval option \<Rightarrow> proc \<Rightarrow> (exn + pyval) \<times> proc"
where
  "sign_up lib self email password user_metadata =
     bindE (auth self) (\<lambda>a.
       invoke lib a ''sign_up''
         [PDict [(''email'', PStr email), (''password'', PStr password),
                 (''options'', PDict [(''data'', case user_metadata of None \<Rightarrow> PNone | Some v \<Rightarrow> v)])]]
         [])"

definition sign_in :: "sdk \<Rightarrow> nat \<Rightarrow> string \<Rightarrow> string \<Rightarrow> proc \<Rightarrow> (exn + pyval) \<times> proc" where
  "sign_in lib self email password =
     bindE (auth self) (\<lambda>a.
       invoke lib a ''sign_in_with_password''
         [PDict [(''email'', PStr email), (''password'', PStr password)]] [])"

definition sign_out :: "sdk \<Rightarrow> nat \<Rightarrow> string \<Rightarrow> proc \<Rightarrow> (exn + pyval) \<times> proc" where
  "sign_out lib self access_token =
     bindE (auth self) (\<lambda>a. invoke lib a ''sign_out'' [] [])"

definition get_user :: "sdk \<Rightarrow> nat \<Rightarrow> string \<Rightarrow> proc \<Rightarrow> (exn + pyval) \<times> proc" where
  "get_user lib self access_token =
     bindE (auth self) (\<lambda>a. invoke lib a ''get_user'' [] [(''jwt'', PStr access_token)])"

definition refresh_token :: "sdk \<Rightarrow> nat \<Rightarrow> string \<Rightarrow> proc \<Rightarrow> (exn + pyval) \<times> proc" where
  "refresh_token lib self refresh_token_arg =
     bindE (auth self) (\<lambda>a.
       invoke lib a ''refresh_session'' [] [(''refresh_token'', PStr refresh_token_arg)])"

definition create_bucket :: "sdk \<Rightarrow> nat \<Rightarrow> string \<Rightarrow> proc \<Rightarrow> (exn + pyval) \<times> proc" where
  "create_bucket lib self bucket_name =
     bindE (storage self) (\<lambda>st. invoke lib st ''create_bucket'' [PStr bucket_name] [])"

definition upload_file ::
  "sdk \<Rightarrow> nat \<Rightarrow> string \<Rightarrow> string \<Rightarrow> pyval \<Rightarrow> string \<Rightarrow> proc \<Rightarrow> (exn + pyval) \<times> proc"
where
  "upload_file lib self bucket_name file_path file_content content_type =
     bindE (storage self) (\<lambda>st.
     bindE (invoke lib st ''from_'' [PStr bucket_name] []) (\<lambda>b.
       invoke lib b ''upload''
         [PStr file_path, file_content, PDict [(''content-type'', PStr content_type)]] []))"

definition get_file_url :: "sdk \<Rightarrow> nat \<Rightarrow> string \<Rightarrow> string \<Rightarrow> proc \<Rightarrow> (exn + pyval) \<times> proc" where
  "get_file_url lib self bucket_name file_path =
     bindE (storage self) (\<lambda>st.
     bindE (invoke lib st ''from_'' [PStr bucket_name] []) (\<lambda>b.
       invoke lib b ''get_public_url'' [PStr file_path] []))"

definition delete_file :: "sdk \<Rightarrow> nat \<Rightarrow> string \<Rightarrow> string \<Rightarrow> proc \<Rightarrow> (exn + pyval) \<times> proc" where
  "delete_file lib self bucket_name file_path =
     bindE (storage self) (\<lambda>st.
     bindE (invoke lib st ''from_'' [PStr bucket_name] []) (\<lambda>b.
       invoke lib b ''remove'' [PList [PStr file_path]] []))"

section \<open>Callers\<close>

text \<open>
  The ten forwarding operations as one type, so that a statement can range over all of
  them, and the two things a caller does: \<^verbatim>\<open>SupabaseManager()\<close>, and
  \<^verbatim>\<open>SupabaseManager().operation(...)\<close>.
\<close>

datatype request =
    Sign_up string string "pyval option"
  | Sign_in string string
  | Sign_out string
  | Get_user string
  | Refresh_token string
  | Create_bucket string
  | Upload_file string string pyval string
  | Get_file_url string string
  | Delete_file string string
  | Table string

fun perform :: "sdk \<Rightarrow> nat \<Rightarrow> request \<Rightarrow> proc \<Rightarrow> (exn + pyval) \<times> proc" where
  "perform lib self (Sign_up e p m) = sign_up lib self e p m"
| "perform lib self (Sign_in e p) = sign_in lib self e p"
| "perform lib self (Sign_out t) = sign_out lib self t"
| "perform lib self (Get_user t) = get_user lib self t"
| "perform lib self (Refresh_token t) = refresh_token lib self t"
| "perform lib self (Create_bucket b) = create_bucket lib self b"
| "perform lib self (Upload_file b p c t) = upload_file lib self b p c t"
| "perform lib self (Get_file_url b p) = get_file_url lib self b p"
| "perform lib self (Delete_file b p) = delete_file lib self b p"
| "perform lib self (Table n) = table lib self n"

datatype action = Construct | Request request

datatype outcome = Handle "exn + nat" | Reply "exn + pyval"

fun step :: "sdk \<Rightarrow> string option \<Rightarrow> string option \<Rightarrow> action \<Rightarrow> proc \<Rightarrow> outcome \<times> proc" where
  "step lib url key Construct s =
     (case SupabaseManager_new lib url key s of (r, s') \<Rightarrow> (Handle r, s'))"
| "step lib url key (Request q) s =
     (case bindE (SupabaseManager_new lib url key) (\<lambda>self. perform lib self q) s of
        (r, s') \<Rightarrow> (Reply r, s'))"

fun run :: "sdk \<Rightarrow> string option \<Rightarrow> string option \<Rightarrow> action list \<Rightarrow> proc \<Rightarrow> outcome list \<times> proc" where
  "run lib url key [] s = ([], s)"
| "run lib url key (a # as) s =
     (case step lib url key a s of
        (x, s') \<Rightarrow> (case run lib url key as s' of (xs, s'') \<Rightarrow> (x # xs, s'')))"

text \<open>Two stand-ins for the library: one answers every call, one refuses every call
  that is not \<^verbatim>\<open>create_client\<close>.\<close>

definition stub :: sdk where
  "stub log c =
     (if meth c = ''create_client'' then Inr (PObj 0)
      else if meth c = ''from_'' then Inr (PObj 1)
      else if meth c = ''get_public_url'' then Inr (PStr ''https://x.test/public/f.txt'')
      else Inr (PObj (2 + length log)))"

definition refusing :: sdk where
  "refusing log c =
     (if meth c = ''create_client'' then Inr (PObj 0)
      else Inl (SdkError (PStr (meth c))))"

text \<open>A third one refuses every call, \<^verbatim>\<open>create_client\<close> included, as the library
  does for a URL or key it finds invalid.\<close>

definition rejecting :: sdk where
  "rejecting log c = Inl (SdkError (PStr (meth c)))"

section \<open>Auxiliary notions\<close>

text \<open>
  \<open>keeps\<close>: a step that leaves the stored instance, the objects and the
  \<^verbatim>\<open>create_client\<close> calls alone. \<open>shared\<close>: the states of a process, which has either
  built nothing or exactly one manager at address \<open>0\<close> after exactly one
  \<^verbatim>\<open>create_client\<close>. \<open>forwarded\<close>: an outcome that is the library's answer to the last
  of the calls made. \<open>after_new\<close>: the process after \<^verbatim>\<open>SupabaseManager()\<close> with the
  URL \<^verbatim>\<open>https://x.test\<close>, the key \<^verbatim>\<open>k\<close> and the library \<open>stub\<close>.
\<close>

definition keeps :: "proc \<Rightarrow> proc \<Rightarrow> bool" where
  "keeps s s' \<longleftrightarrow>
     cls_instance s' = cls_instance s \<and> heap s' = heap s \<and>
     filter (\<lambda>c. meth c = ''create_client'') (calls s') =
       filter (\<lambda>c. meth c = ''create_client'') (calls s)"

definition shared :: "proc \<Rightarrow> bool" where
  "shared s \<longleftrightarrow>
     (cls_instance s = None \<and> heap s = [] \<and> calls s = []) \<or>
     (cls_instance s = Some 0 \<and> length (heap s) = 1 \<and>
      length (filter (\<lambda>c. meth c = ''create_client'') (calls s)) = 1)"

definition forwarded :: "sdk \<Rightarrow> proc \<Rightarrow> (exn + pyval) \<times> proc \<Rightarrow> bool" where
  "forwarded lib s rs \<longleftrightarrow>
     (\<exists>cs. cs \<noteq> [] \<and> calls (snd rs) = calls s @ cs \<and>
           fst rs = lib (calls s @ butlast cs) (last cs) \<and>
           (\<forall>i. Suc i < length cs \<longrightarrow> (\<exists>v. lib (calls s @ take i cs) (cs ! i) = Inr v)) \<and>
           cls_instance (snd rs) = cls_instance s \<and> heap (snd rs) = heap s)"

definition after_new :: proc where
  "after_new =
     \<lparr>cls_instance = Some 0, heap = [\<lparr>client = Some (PObj 0)\<rparr>],
      calls = [Call (PModule ''supabase'') ''create_client'' [PStr ''https://x.test'', PStr ''k''] []]\<rparr>"

section \<open>Basic facts\<close>

lemma invoke_eq:
  "invoke lib recv m as kw s =
     (lib (calls s) (Call recv m as kw), s\<lparr>calls := calls s @ [Call recv m as kw]\<rparr>)"
  by (simp add: invoke_def Let_def)

lemma getattr_client_constructed:
  "self < length (heap s) \<Longrightarrow> client (heap s ! self) = Some cl \<Longrightarrow> getattr_client self s = (Inr cl, s)"
  by (simp add: getattr_client_def)

lemma auth_constructed:
  "self < length (heap s) \<Longrightarrow> client (heap s ! self) = Some cl \<Longrightarrow> auth self s = (Inr (PAttr cl ''auth''), s)"
  by (simp add: auth_def bindE_def returnE_def getattr_client_constructed)

lemma storage_constructed:
  "self < length (heap s) \<Longrightarrow> client (heap s ! self) = Some cl \<Longrightarrow> storage self s = (Inr (PAttr cl ''storage''), s)"
  by (simp add: storage_def bindE_def returnE_def getattr_client_constructed)

lemma new_missing:
  "py_not url \<or> py_not key \<Longrightarrow> cls_instance s = None \<Longrightarrow>
   SupabaseManager_new lib url key s = (Inl (ValueError config_message), s)"
  by (simp add: SupabaseManager_new_def)

lemma run_Cons_snd:
  "snd (run lib url key (a # as) s) = snd (run lib url key as (snd (step lib url key a s)))"
  by (simp split: prod.splits)

lemma run_Cons_fst:
  "fst (run lib url key (a # as) s) =
     fst (step lib url key a s) # fst (run lib url key as (snd (step lib url key a s)))"
  by (simp split: prod.splits)

lemma step_missing:
  "py_not url \<or> py_not key \<Longrightarrow> cls_instance s = None \<Longrightarrow>
   step lib url key a s =
     (case a of Construct \<Rightarrow> Handle (Inl (ValueError config_message))
              | Request q \<Rightarrow> Reply (Inl (ValueError config_message)), s)"
  by (cases a) (simp_all add: new_missing bindE_def)

lemma run_missing:
  "py_not url \<or> py_not key \<Longrightarrow> cls_instance s = None \<Longrightarrow>
   snd (run lib url key as s) = s"
proof (induction as)
  case Nil
  then show ?case by simp
next
  case (Cons a as)
  then show ?case by (simp only: run_Cons_snd step_missing snd_conv)
qed

lemma run_missing_outcomes:
  "py_not url \<or> py_not key \<Longrightarrow> cls_instance s = None \<Longrightarrow>
   run lib url key as s =
     (map (\<lambda>a. case a of Construct \<Rightarrow> Handle (Inl (ValueError config_message))
                          | Request q \<Rightarrow> Reply (Inl (ValueError config_message))) as, s)"
proof (induction as)
  case Nil
  then show ?case by simp
next
  case (Cons a as)
  then show ?case by (simp add: step_missing del: step.simps)
qed

lemma keeps_refl: "keeps s s"
  by (simp add: keeps_def)

lemma keeps_invoke: "m \<noteq> ''create_client'' \<Longrightarrow> keeps s (snd (invoke lib recv m as kw s))"
  by (simp add: keeps_def invoke_eq)

lemma keeps_getattr_client: "keeps s (snd (getattr_client self s))"
  by (simp add: keeps_def getattr_client_def split: option.splits)

lemma keeps_bindE:
  assumes "\<And>t. keeps t (snd (m t))" and "\<And>x t. keeps t (snd (f x t))"
  shows "keeps s (snd (bindE m f s))"
proof (cases "m s")
  case (Pair r s')
  have a: "keeps s s'" using assms(1) [of s] Pair by simp
  show ?thesis
  proof (cases r)
    case (Inl e)
    with Pair a show ?thesis by (simp add: bindE_def)
  next
    case (Inr x)
    have "keeps s' (snd (f x s'))" by (rule assms(2))
    with a have "keeps s (snd (f x s'))" by (simp add: keeps_def)
    with Pair Inr show ?thesis by (simp add: bindE_def)
  qed
qed

lemma keeps_auth: "keeps s (snd (auth self s))"
  unfolding auth_def by (rule keeps_bindE) (simp_all add: keeps_getattr_client returnE_def keeps_refl)

lemma keeps_storage: "keeps s (snd (storage self s))"
  unfolding storage_def by (rule keeps_bindE) (simp_all add: keeps_getattr_client returnE_def keeps_refl)

lemma keeps_perform: "keeps s (snd (perform lib self q s))"
proof (cases q)
  case (Sign_up e p m)
  show ?thesis unfolding Sign_up perform.simps sign_up_def
    by (rule keeps_bindE) (simp_all add: keeps_auth keeps_invoke)
next
  case (Sign_in e p)
  show ?thesis unfolding Sign_in perform.simps sign_in_def
    by (rule keeps_bindE) (simp_all add: keeps_auth keeps_invoke)
next
  case (Sign_out t)
  show ?thesis unfolding Sign_out perform.simps sign_out_def
    by (rule keeps_bindE) (simp_all add: keeps_auth keeps_invoke)
next
  case (Get_user t)
  show ?thesis unfolding Get_user perform.simps get_user_def
    by (rule keeps_bindE) (simp_all add: keeps_auth keeps_invoke)
next
  case (Refresh_token t)
  show ?thesis unfolding Refresh_token perform.simps refresh_token_def
    by (rule keeps_bindE) (simp_all add: keeps_auth keeps_invoke)
next
  case (Create_bucket b)
  show ?thesis unfolding Create_bucket perform.simps create_bucket_def
    by (rule keeps_bindE) (simp_all add: keeps_storage keeps_invoke)
next
  case (Upload_file b p c t)
  show ?thesis unfolding Upload_file perform.simps upload_file_def
    by (rule keeps_bindE, rule keeps_storage, rule keeps_bindE) (simp_all add: keeps_invoke)
next
  case (Get_file_url b p)
  show ?thesis unfolding Get_file_url perform.simps get_file_url_def
    by (rule keeps_bindE, rule keeps_storage, rule keeps_bindE) (simp_all add: keeps_invoke)
next
  case (Delete_file b p)
  show ?thesis unfolding Delete_file perform.simps delete_file_def
    by (rule keeps_bindE, rule keeps_storage, rule keeps_bindE) (simp_all add: keeps_invoke)
next
  case (Table n)
  show ?thesis unfolding Table perform.simps table_def
    by (rule keeps_bindE) (simp_all add: keeps_getattr_client keeps_invoke)
qed

lemma shared_initial: "shared initial"
  by (simp add: shared_def initial_def)

lemma shared_keeps: "shared s \<Longrightarrow> cls_instance s = Some 0 \<Longrightarrow> keeps s s' \<Longrightarrow> shared s'"
  by (simp add: shared_def keeps_def)

lemma new_stored: "cls_instance s = Some a \<Longrightarrow> SupabaseManager_new lib url key s = (Inr a, s)"
  by (simp add: SupabaseManager_new_def)

lemma new_first:
  assumes "u \<noteq> []" and "k \<noteq> []" and "cls_instance s = None"
  shows "SupabaseManager_new lib (Some u) (Some k) s =
     (case lib (calls s) (Call (PModule ''supabase'') ''create_client'' [PStr u, PStr k] []) of
        Inl e \<Rightarrow>
          (Inl e, \<lparr>cls_instance = Some (length (heap s)), heap = heap s @ [\<lparr>client = None\<rparr>],
                   calls = calls s @ [Call (PModule ''supabase'') ''create_client'' [PStr u, PStr k] []]\<rparr>)
      | Inr c \<Rightarrow>
          (Inr (length (heap s)),
           \<lparr>cls_instance = Some (length (heap s)), heap = heap s @ [\<lparr>client = Some c\<rparr>],
            calls = calls s @ [Call (PModule ''supabase'') ''create_client'' [PStr u, PStr k] []]\<rparr>))"
  using assms by (cases s) (simp add: SupabaseManager_new_def invoke_eq Let_def split: sum.splits)

lemma new_shared:
  assumes "u \<noteq> []" and "k \<noteq> []" and "shared s"
  shows "shared (snd (SupabaseManager_new lib (Some u) (Some k) s)) \<and>
         cls_instance (snd (SupabaseManager_new lib (Some u) (Some k) s)) = Some 0 \<and>
         (\<forall>h. fst (SupabaseManager_new lib (Some u) (Some k) s) = Inr h \<longrightarrow> h = 0)"
proof (cases "cls_instance s")
  case None
  with assms(3) have "heap s = []" and "calls s = []" by (simp_all add: shared_def)
  then show ?thesis
    by (simp add: new_first [OF assms(1,2) None] shared_def split: sum.splits)
next
  case (Some a)
  with assms(3) have "a = 0" by (simp add: shared_def)
  with Some assms(3) show ?thesis by (simp add: new_stored)
qed

lemma new_accepted:
  assumes "u \<noteq> []" and "k \<noteq> []" and "shared s"
    and "lib [] (Call (PModule ''supabase'') ''create_client'' [PStr u, PStr k] []) = Inr c"
  shows "fst (SupabaseManager_new lib (Some u) (Some k) s) = Inr 0"
proof (cases "cls_instance s")
  case None
  with assms(3) have "heap s = []" and "calls s = []" by (simp_all add: shared_def)
  with assms(4) show ?thesis
    by (simp add: new_first [OF assms(1,2) None])
next
  case (Some a)
  with assms(3) have "a = 0" by (simp add: shared_def)
  with Some show ?thesis by (simp add: new_stored)
qed

lemma step_shared:
  assumes "u \<noteq> []" and "k \<noteq> []" and "shared s"
  shows "shared (snd (step lib (Some u) (Some k) a s)) \<and>
         (\<forall>h. fst (step lib (Some u) (Some k) a s) = Handle (Inr h) \<longrightarrow> h = 0)"
proof (cases a)
  case Construct
  with new_shared [OF assms, of lib] show ?thesis
    by (cases "SupabaseManager_new lib (Some u) (Some k) s") simp
next
  case (Request q)
  obtain r s1 where n: "SupabaseManager_new lib (Some u) (Some k) s = (r, s1)"
    by (cases "SupabaseManager_new lib (Some u) (Some k) s")
  with new_shared [OF assms, of lib] have s1: "shared s1" "cls_instance s1 = Some 0" by simp_all
  show ?thesis
  proof (cases r)
    case (Inl e)
    with n s1 Request show ?thesis by (simp add: bindE_def)
  next
    case (Inr self)
    have "shared (snd (perform lib self q s1))"
      using s1 keeps_perform by (rule shared_keeps)
    with n Inr Request show ?thesis
      by (cases "perform lib self q s1") (simp add: bindE_def)
  qed
qed

lemma step_accepted:
  assumes "u \<noteq> []" and "k \<noteq> []" and "shared s"
    and "lib [] (Call (PModule ''supabase'') ''create_client'' [PStr u, PStr k] []) = Inr c"
  shows "\<forall>r. fst (step lib (Some u) (Some k) a s) = Handle r \<longrightarrow> r = Inr 0"
proof (cases a)
  case Construct
  with new_accepted [of u k s lib c] assms show ?thesis
    by (cases "SupabaseManager_new lib (Some u) (Some k) s") simp
next
  case (Request q)
  then show ?thesis by (simp split: prod.splits)
qed

lemma run_shared:
  assumes "u \<noteq> []" and "k \<noteq> []"
  shows "shared s \<Longrightarrow>
         shared (snd (run lib (Some u) (Some k) as s)) \<and>
         (\<forall>h. Handle (Inr h) \<in> set (fst (run lib (Some u) (Some k) as s)) \<longrightarrow> h = 0)"
proof (induction as arbitrary: s)
  case Nil
  then show ?case by simp
next
  case (Cons a as)
  from step_shared [OF assms Cons.prems, of lib a]
  have 1: "shared (snd (step lib (Some u) (Some k) a s))"
    and 2: "\<forall>h. fst (step lib (Some u) (Some k) a s) = Handle (Inr h) \<longrightarrow> h = 0"
    by simp_all
  from Cons.IH [OF 1] 2 show ?case
    by (auto simp only: run_Cons_snd run_Cons_fst set_simps)
qed

lemma run_accepted:
  assumes "u \<noteq> []" and "k \<noteq> []"
    and "lib [] (Call (PModule ''supabase'') ''create_client'' [PStr u, PStr k] []) = Inr c"
  shows "shared s \<Longrightarrow>
         (\<forall>r. Handle r \<in> set (fst (run lib (Some u) (Some k) as s)) \<longrightarrow> r = Inr 0)"
proof (induction as arbitrary: s)
  case Nil
  then show ?case by simp
next
  case (Cons a as)
  from step_shared [OF assms(1,2) Cons.prems, of lib a]
  have 1: "shared (snd (step lib (Some u) (Some k) a s))" by simp
  have 2: "\<forall>r. fst (step lib (Some u) (Some k) a s) = Handle r \<longrightarrow> r = Inr 0"
    using step_accepted [of u k s lib c a] assms Cons.prems by simp
  from Cons.IH [OF 1] 2 show ?case
    by (auto simp only: run_Cons_fst set_simps)
qed

lemma shared_bounds:
  "shared s \<Longrightarrow> length (heap s) \<le> 1 \<and> length (filter (\<lambda>c. meth c = ''create_client'') (calls s)) \<le> 1"
  by (auto simp: shared_def)

lemma forwarded_single: "forwarded lib s (invoke lib recv m as kw s)"
  unfolding forwarded_def
  by (rule exI [of _ "[Call recv m as kw]"]) (simp add: invoke_eq)

lemma forwarded_double:
  "forwarded lib s (bindE (invoke lib recv m as kw) (\<lambda>b. invoke lib b m' as' kw') s)"
proof (cases "lib (calls s) (Call recv m as kw)")
  case (Inl e)
  show ?thesis unfolding forwarded_def
    by (rule exI [of _ "[Call recv m as kw]"]) (simp add: invoke_eq bindE_def Inl)
next
  case (Inr b)
  show ?thesis unfolding forwarded_def
    by (rule exI [of _ "[Call recv m as kw, Call b m' as' kw']"])
       (simp add: invoke_eq bindE_def Inr)
qed

lemma bind_getattr_client:
  "self < length (heap s) \<Longrightarrow> client (heap s ! self) = Some cl \<Longrightarrow>
   bindE (getattr_client self) f s = f cl s"
  by (simp add: bindE_def getattr_client_constructed)

lemma bind_auth:
  "self < length (heap s) \<Longrightarrow> client (heap s ! self) = Some cl \<Longrightarrow>
   bindE (auth self) f s = f (PAttr cl ''auth'') s"
  by (simp add: bindE_def auth_constructed)

lemma bind_storage:
  "self < length (heap s) \<Longrightarrow> client (heap s ! self) = Some cl \<Longrightarrow>
   bindE (storage self) f s = f (PAttr cl ''storage'') s"
  by (simp add: bindE_def storage_constructed)

lemma perform_forwarded:
  assumes "self < length (heap s)" and "client (heap s ! self) = Some cl"
  shows "forwarded lib s (perform lib self q s)"
proof -
  note a = bind_auth [OF assms]
  note st = bind_storage [OF assms]
  note g = bind_getattr_client [OF assms]
  show ?thesis
  proof (cases q)
    case (Sign_up e p m)
    show ?thesis unfolding Sign_up perform.simps sign_up_def a
      by (rule forwarded_single)
  next
    case (Sign_in e p)
    show ?thesis unfolding Sign_in perform.simps sign_in_def a
      by (rule forwarded_single)
  next
    case (Sign_out t)
    show ?thesis unfolding Sign_out perform.simps sign_out_def a
      by (rule forwarded_single)
  next
    case (Get_user t)
    show ?thesis unfolding Get_user perform.simps get_user_def a
      by (rule forwarded_single)
  next
    case (Refresh_token t)
    show ?thesis unfolding Refresh_token perform.simps refresh_token_def a
      by (rule forwarded_single)
  next
    case (Create_bucket b)
    show ?thesis unfolding Create_bucket perform.simps create_bucket_def st
      by (rule forwarded_single)
  next
    case (Upload_file b p c t)
    show ?thesis unfolding Upload_file perform.simps upload_file_def st
      by (rule forwarded_double)
  next
    case (Get_file_url b p)
    show ?thesis unfolding Get_file_url perform.simps get_file_url_def st
      by (rule forwarded_double)
  next
    case (Delete_file b p)
    show ?thesis unfolding Delete_file perform.simps delete_file_def st
      by (rule forwarded_double)
  next
    case (Table n)
    show ?thesis unfolding Table perform.simps table_def g
      by (rule forwarded_single)
  qed
qed

lemma py_not_iff: "py_not v \<longleftrightarrow> v = None \<or> v = Some []"
  by (cases v) simp_all

section \<open>The properties of the specification\<close>

text \<open>
  \<^bold>\<open>C1\<close>. Whenever the URL or the key is absent or the empty string, constructing
  the manager fails with the configuration error, a \<^verbatim>\<open>ValueError\<close>, and builds nothing.
  This holds at every moment of such a process: after any sequence of constructions and
  requests, the next construction returns the \<^verbatim>\<open>ValueError\<close> and leaves the process
  with no stored instance, no object and no call to the library (so no
  \<^verbatim>\<open>create_client\<close>).
\<close>

theorem missing_credentials_ValueError:
  assumes "url = None \<or> url = Some [] \<or> key = None \<or> key = Some []"
  shows "SupabaseManager_new lib url key (snd (run lib url key as initial)) =
           (Inl (ValueError config_message), \<lparr>cls_instance = None, heap = [], calls = []\<rparr>)"
proof -
  from assms have bad: "py_not url \<or> py_not key" by (auto simp: py_not_iff)
  have none: "cls_instance initial = None" by (simp add: initial_def)
  from run_missing [OF bad none] new_missing [OF bad none]
  show ?thesis by (simp add: initial_def)
qed

theorem missing_credentials_ValueError_witness:
  "(None = (None :: string option) \<or> None = Some [] \<or> Some ''k'' = None \<or> Some ''k'' = Some []) \<and>
   SupabaseManager_new stub None (Some ''k'')
       (snd (run stub None (Some ''k'') [Construct, Request (Sign_in ''a@b.com'' ''pw'')] initial)) =
     (Inl (ValueError config_message), \<lparr>cls_instance = None, heap = [], calls = []\<rparr>)"
  using missing_credentials_ValueError
          [of None "Some ''k''" stub "[Construct, Request (Sign_in ''a@b.com'' ''pw'')]"]
  by simp

text \<open>
  \<^bold>\<open>C2\<close>. Non-empty credentials alone do not make every construction return the
  shared handle: \<^verbatim>\<open>create_client\<close> may refuse them, and then the construction raises
  what the library raised. What holds for a non-empty URL and key, over any sequence of
  successive constructions and requests that starts in a fresh process, is this: any two
  constructions that return a handle return the same address; there is at most one
  manager object and at most one call of \<^verbatim>\<open>create_client\<close>, hence at most one client;
  and when the library accepts the credentials (\<^verbatim>\<open>create_client\<close> returns a client),
  every construction returns that one handle.
\<close>

theorem shared_instance_identity:
  assumes "url \<noteq> []" and "key \<noteq> []"
  shows "(\<forall>h h'. Handle (Inr h) \<in> set (fst (run lib (Some url) (Some key) as initial)) \<and>
                 Handle (Inr h') \<in> set (fst (run lib (Some url) (Some key) as initial)) \<longrightarrow> h = h') \<and>
         length (heap (snd (run lib (Some url) (Some key) as initial))) \<le> 1 \<and>
         length (filter (\<lambda>c. meth c = ''create_client'')
                   (calls (snd (run lib (Some url) (Some key) as initial)))) \<le> 1 \<and>
         ((\<exists>c. lib [] (Call (PModule ''supabase'') ''create_client'' [PStr url, PStr key] []) = Inr c) \<longrightarrow>
          (\<forall>r. Handle r \<in> set (fst (run lib (Some url) (Some key) as initial)) \<longrightarrow> r = Inr 0))"
proof -
  from run_shared [OF assms shared_initial, of lib as]
  have 1: "shared (snd (run lib (Some url) (Some key) as initial))"
    and 2: "\<forall>h. Handle (Inr h) \<in> set (fst (run lib (Some url) (Some key) as initial)) \<longrightarrow> h = 0"
    by simp_all
  from 2 have 3: "\<forall>h h'. Handle (Inr h) \<in> set (fst (run lib (Some url) (Some key) as initial)) \<and>
                 Handle (Inr h') \<in> set (fst (run lib (Some url) (Some key) as initial)) \<longrightarrow> h = h'"
    by blast
  have 4: "(\<exists>c. lib [] (Call (PModule ''supabase'') ''create_client'' [PStr url, PStr key] []) = Inr c) \<longrightarrow>
          (\<forall>r. Handle r \<in> set (fst (run lib (Some url) (Some key) as initial)) \<longrightarrow> r = Inr 0)"
  proof
    assume "\<exists>c. lib [] (Call (PModule ''supabase'') ''create_client'' [PStr url, PStr key] []) = Inr c"
    then obtain c where "lib [] (Call (PModule ''supabase'') ''create_client'' [PStr url, PStr key] []) = Inr c" ..
    with run_accepted [of url key lib c initial as] assms shared_initial
    show "\<forall>r. Handle r \<in> set (fst (run lib (Some url) (Some key) as initial)) \<longrightarrow> r = Inr 0"
      by simp
  qed
  from shared_bounds [OF 1] 3 4 show ?thesis by simp
qed

theorem shared_instance_identity_witness:
  "''https://x.test'' \<noteq> [] \<and> ''k'' \<noteq> [] \<and>
   stub [] (Call (PModule ''supabase'') ''create_client'' [PStr ''https://x.test'', PStr ''k''] []) = Inr (PObj 0) \<and>
   fst (run stub (Some ''https://x.test'') (Some ''k'')
          [Construct, Request (Sign_in ''a@b.com'' ''pw''), Construct] initial) =
     [Handle (Inr 0), Reply (Inr (PObj 3)), Handle (Inr 0)] \<and>
   length (heap (snd (run stub (Some ''https://x.test'') (Some ''k'')
          [Construct, Request (Sign_in ''a@b.com'' ''pw''), Construct] initial))) \<le> 1 \<and>
   length (filter (\<lambda>c. meth c = ''create_client'')
      (calls (snd (run stub (Some ''https://x.test'') (Some ''k'')
          [Construct, Request (Sign_in ''a@b.com'' ''pw''), Construct] initial)))) \<le> 1"
proof -
  have r: "fst (run stub (Some ''https://x.test'') (Some ''k'')
          [Construct, Request (Sign_in ''a@b.com'' ''pw''), Construct] initial) =
     [Handle (Inr 0), Reply (Inr (PObj 3)), Handle (Inr 0)]"
    by (simp add: SupabaseManager_new_def initial_def invoke_eq stub_def bindE_def sign_in_def
          auth_def getattr_client_def returnE_def)
  have c: "stub [] (Call (PModule ''supabase'') ''create_client'' [PStr ''https://x.test'', PStr ''k''] []) = Inr (PObj 0)"
    by (simp add: stub_def)
  from shared_instance_identity
         [of "''https://x.test''" "''k''" stub "[Construct, Request (Sign_in ''a@b.com'' ''pw''), Construct]"]
  have "length (heap (snd (run stub (Some ''https://x.test'') (Some ''k'')
          [Construct, Request (Sign_in ''a@b.com'' ''pw''), Construct] initial))) \<le> 1 \<and>
   length (filter (\<lambda>c. meth c = ''create_client'')
      (calls (snd (run stub (Some ''https://x.test'') (Some ''k'')
          [Construct, Request (Sign_in ''a@b.com'' ''pw''), Construct] initial)))) \<le> 1"
    by simp
  with r c show ?thesis by simp
qed

text \<open>
  With the non-empty URL \<^verbatim>\<open>x.test\<close> and key \<^verbatim>\<open>k\<close> and a library that refuses them,
  the first of two successive constructions raises the library's exception instead of
  returning a handle. The object was stored in \<^verbatim>\<open>_instance\<close> before the call, so the
  second construction returns it, with its \<^verbatim>\<open>client\<close> attribute never assigned.
\<close>

theorem nonempty_credentials_first_construction_raises:
  "run rejecting (Some ''x.test'') (Some ''k'') [Construct, Construct] initial =
     ([Handle (Inl (SdkError (PStr ''create_client''))), Handle (Inr 0)],
      \<lparr>cls_instance = Some 0, heap = [\<lparr>client = None\<rparr>],
       calls = [Call (PModule ''supabase'') ''create_client'' [PStr ''x.test'', PStr ''k''] []]\<rparr>)"
  by (simp add: SupabaseManager_new_def initial_def invoke_eq rejecting_def)

text \<open>
  \<^bold>\<open>C3\<close>. On a constructed manager, \<^verbatim>\<open>sign_in\<close> calls
  \<^verbatim>\<open>sign_in_with_password\<close> on the client's \<^verbatim>\<open>auth\<close> exactly once, with the single
  positional argument \<^verbatim>\<open>{"email": email, "password": password}\<close>, and its outcome is the
  library's answer to that call, whatever it is. The log of calls grows by that one
  call. The scenario of the specification (URL \<^verbatim>\<open>https://x.test\<close>, key \<^verbatim>\<open>k\<close>,
  \<^verbatim>\<open>sign_in("a@b.com", "pw")\<close> against a recording stub) is the instance that follows
  the theorem.
\<close>

theorem sign_in_forwards_once:
  assumes "self < length (heap s)" and "client (heap s ! self) = Some cl"
  shows "sign_in lib self email password s =
           (lib (calls s)
              (Call (PAttr cl ''auth'') ''sign_in_with_password''
                 [PDict [(''email'', PStr email), (''password'', PStr password)]] []),
            s\<lparr>calls := calls s @
              [Call (PAttr cl ''auth'') ''sign_in_with_password''
                 [PDict [(''email'', PStr email), (''password'', PStr password)]] []]\<rparr>) \<and>
         length (filter (\<lambda>c. meth c = ''sign_in_with_password'')
                   (calls (snd (sign_in lib self email password s)))) =
           Suc (length (filter (\<lambda>c. meth c = ''sign_in_with_password'') (calls s)))"
  by (simp add: sign_in_def bind_auth [OF assms] invoke_eq)

theorem sign_in_forwards_once_witness:
  "SupabaseManager_new stub (Some ''https://x.test'') (Some ''k'') initial = (Inr 0, after_new) \<and>
   0 < length (heap after_new) \<and> client (heap after_new ! 0) = Some (PObj 0) \<and>
   sign_in stub 0 ''a@b.com'' ''pw'' after_new =
     (Inr (PObj 3),
      after_new\<lparr>calls :=
        [Call (PModule ''supabase'') ''create_client'' [PStr ''https://x.test'', PStr ''k''] [],
         Call (PAttr (PObj 0) ''auth'') ''sign_in_with_password''
           [PDict [(''email'', PStr ''a@b.com''), (''password'', PStr ''pw'')]] []]\<rparr>) \<and>
   length (filter (\<lambda>c. meth c = ''sign_in_with_password'')
             (calls (snd (sign_in stub 0 ''a@b.com'' ''pw'' after_new)))) = 1"
proof -
  have n: "SupabaseManager_new stub (Some ''https://x.test'') (Some ''k'') initial = (Inr 0, after_new)"
    by (simp add: SupabaseManager_new_def initial_def after_new_def invoke_eq stub_def)
  have h: "0 < length (heap after_new)" "client (heap after_new ! 0) = Some (PObj 0)"
    by (simp_all add: after_new_def)
  from sign_in_forwards_once
         [where self = 0 and s = after_new and cl = "PObj 0" and lib = stub and email = "''a@b.com''"
            and password = "''pw''"] n h
  show ?thesis by (simp add: after_new_def stub_def)
qed

text \<open>
  \<^bold>\<open>C4\<close>. On a constructed manager, when \<^verbatim>\<open>storage.from_(bucket_name)\<close> answers
  with a bucket object, \<^verbatim>\<open>upload_file\<close> calls \<^verbatim>\<open>upload\<close> on that object with three
  positional arguments: the path, the content, and the mapping
  \<^verbatim>\<open>{"content-type": content_type}\<close>. The content type appears nowhere else, and the
  outcome is the library's answer to the \<^verbatim>\<open>upload\<close> call.
\<close>

theorem upload_file_content_type_in_options:
  assumes "self < length (heap s)" and "client (heap s ! self) = Some cl"
    and "lib (calls s) (Call (PAttr cl ''storage'') ''from_'' [PStr bucket_name] []) = Inr b"
  shows "upload_file lib self bucket_name file_path file_content content_type s =
           (lib (calls s @ [Call (PAttr cl ''storage'') ''from_'' [PStr bucket_name] []])
              (Call b ''upload''
                 [PStr file_path, file_content, PDict [(''content-type'', PStr content_type)]] []),
            s\<lparr>calls := calls s @
              [Call (PAttr cl ''storage'') ''from_'' [PStr bucket_name] [],
               Call b ''upload''
                 [PStr file_path, file_content, PDict [(''content-type'', PStr content_type)]] []]\<rparr>)"
  unfolding upload_file_def bind_storage [OF assms(1,2)]
  by (simp add: invoke_eq bindE_def assms(3))

theorem upload_file_content_type_in_options_witness:
  "0 < length (heap after_new) \<and> client (heap after_new ! 0) = Some (PObj 0) \<and>
   stub (calls after_new) (Call (PAttr (PObj 0) ''storage'') ''from_'' [PStr ''docs''] []) = Inr (PObj 1) \<and>
   upload_file stub 0 ''docs'' ''a/b.txt'' (PObj 9) ''text/plain'' after_new =
     (Inr (PObj 4),
      after_new\<lparr>calls :=
        [Call (PModule ''supabase'') ''create_client'' [PStr ''https://x.test'', PStr ''k''] [],
         Call (PAttr (PObj 0) ''storage'') ''from_'' [PStr ''docs''] [],
         Call (PObj 1) ''upload''
           [PStr ''a/b.txt'', PObj 9, PDict [(''content-type'', PStr ''text/plain'')]] []]\<rparr>)"
proof -
  have h: "0 < length (heap after_new)" "client (heap after_new ! 0) = Some (PObj 0)"
    "stub (calls after_new) (Call (PAttr (PObj 0) ''storage'') ''from_'' [PStr ''docs''] []) = Inr (PObj 1)"
    by (simp_all add: after_new_def stub_def)
  from upload_file_content_type_in_options
         [where self = 0 and s = after_new and cl = "PObj 0" and lib = stub and bucket_name = "''docs''"
            and b = "PObj 1" and file_path = "''a/b.txt''" and file_content = "PObj 9"
            and content_type = "''text/plain''"] h
  show ?thesis by (simp add: after_new_def stub_def)
qed

text \<open>
  \<^bold>\<open>C5\<close>. On a constructed manager, when \<^verbatim>\<open>storage.from_(bucket_name)\<close> answers
  with a bucket object, \<^verbatim>\<open>get_file_url\<close> returns what the library's
  \<^verbatim>\<open>get_public_url(file_path)\<close> on that object answers, unchanged.
\<close>

theorem get_file_url_returns_sdk_url:
  assumes "self < length (heap s)" and "client (heap s ! self) = Some cl"
    and "lib (calls s) (Call (PAttr cl ''storage'') ''from_'' [PStr bucket_name] []) = Inr b"
  shows "get_file_url lib self bucket_name file_path s =
           (lib (calls s @ [Call (PAttr cl ''storage'') ''from_'' [PStr bucket_name] []])
              (Call b ''get_public_url'' [PStr file_path] []),
            s\<lparr>calls := calls s @
              [Call (PAttr cl ''storage'') ''from_'' [PStr bucket_name] [],
               Call b ''get_public_url'' [PStr file_path] []]\<rparr>)"
  unfolding get_file_url_def bind_storage [OF assms(1,2)]
  by (simp add: invoke_eq bindE_def assms(3))

theorem get_file_url_returns_sdk_url_witness:
  "0 < length (heap after_new) \<and> client (heap after_new ! 0) = Some (PObj 0) \<and>
   stub (calls after_new) (Call (PAttr (PObj 0) ''storage'') ''from_'' [PStr ''docs''] []) = Inr (PObj 1) \<and>
   stub (calls after_new @ [Call (PAttr (PObj 0) ''storage'') ''from_'' [PStr ''docs''] []])
     (Call (PObj 1) ''get_public_url'' [PStr ''f.txt''] []) = Inr (PStr ''https://x.test/public/f.txt'') \<and>
   fst (get_file_url stub 0 ''docs'' ''f.txt'' after_new) = Inr (PStr ''https://x.test/public/f.txt'')"
proof -
  have h: "0 < length (heap after_new)" "client (heap after_new ! 0) = Some (PObj 0)"
    "stub (calls after_new) (Call (PAttr (PObj 0) ''storage'') ''from_'' [PStr ''docs''] []) = Inr (PObj 1)"
    by (simp_all add: after_new_def stub_def)
  from get_file_url_returns_sdk_url
         [where self = 0 and s = after_new and cl = "PObj 0" and lib = stub and bucket_name = "''docs''"
            and b = "PObj 1" and file_path = "''f.txt''"] h
  show ?thesis by (simp add: stub_def)
qed

text \<open>
  \<^bold>\<open>C6\<close>. Each of the ten forwarding operations, on a constructed manager, makes
  at least one call to the library; its outcome is exactly the library's answer to the
  last call it made, an exception as that exception and a value as that value; every
  call it made before the last one had returned a value. So an exception of the library
  ends the operation at once and reaches the caller as it is: nothing is caught, retried
  or translated. The stored instance and the objects are untouched.
\<close>

theorem forwarding_propagates_unchanged:
  assumes "self < length (heap s)" and "client (heap s ! self) = Some cl"
  shows "\<exists>cs. cs \<noteq> [] \<and>
           calls (snd (perform lib self q s)) = calls s @ cs \<and>
           fst (perform lib self q s) = lib (calls s @ butlast cs) (last cs) \<and>
           (\<forall>i. Suc i < length cs \<longrightarrow> (\<exists>v. lib (calls s @ take i cs) (cs ! i) = Inr v)) \<and>
           cls_instance (snd (perform lib self q s)) = cls_instance s \<and>
           heap (snd (perform lib self q s)) = heap s"
  using perform_forwarded [OF assms, of lib q] unfolding forwarded_def .

theorem forwarding_propagates_unchanged_witness:
  "0 < length (heap after_new) \<and> client (heap after_new ! 0) = Some (PObj 0) \<and>
   (\<exists>cs. cs \<noteq> [] \<and>
      calls (snd (perform refusing 0 (Delete_file ''docs'' ''f.txt'') after_new)) = calls after_new @ cs \<and>
      fst (perform refusing 0 (Delete_file ''docs'' ''f.txt'') after_new) =
        refusing (calls after_new @ butlast cs) (last cs) \<and>
      (\<forall>i. Suc i < length cs \<longrightarrow> (\<exists>v. refusing (calls after_new @ take i cs) (cs ! i) = Inr v)) \<and>
      cls_instance (snd (perform refusing 0 (Delete_file ''docs'' ''f.txt'') after_new)) = cls_instance after_new \<and>
      heap (snd (perform refusing 0 (Delete_file ''docs'' ''f.txt'') after_new)) = heap after_new) \<and>
   perform refusing 0 (Delete_file ''docs'' ''f.txt'') after_new =
     (Inl (SdkError (PStr ''from_'')),
      after_new\<lparr>calls :=
        [Call (PModule ''supabase'') ''create_client'' [PStr ''https://x.test'', PStr ''k''] [],
         Call (PAttr (PObj 0) ''storage'') ''from_'' [PStr ''docs''] []]\<rparr>)"
proof -
  have h: "0 < length (heap after_new)" "client (heap after_new ! 0) = Some (PObj 0)"
    by (simp_all add: after_new_def)
  have p: "perform refusing 0 (Delete_file ''docs'' ''f.txt'') after_new =
     (Inl (SdkError (PStr ''from_'')),
      after_new\<lparr>calls :=
        [Call (PModule ''supabase'') ''create_client'' [PStr ''https://x.test'', PStr ''k''] [],
         Call (PAttr (PObj 0) ''storage'') ''from_'' [PStr ''docs''] []]\<rparr>)"
    unfolding perform.simps delete_file_def bind_storage [OF h]
    by (simp add: invoke_eq bindE_def refusing_def after_new_def)
  from forwarding_propagates_unchanged
         [where self = 0 and s = after_new and cl = "PObj 0" and lib = refusing
            and q = "Delete_file ''docs'' ''f.txt''"] h p
  show ?thesis by blast
qed

text \<open>
  \<^bold>\<open>C7\<close>. \<^verbatim>\<open>sign_out\<close> does not use its access token: in the same state, two
  tokens give the same outcome and the same new state. On a constructed manager the one
  call made is \<^verbatim>\<open>auth.sign_out()\<close> with no positional and no keyword argument.
\<close>

theorem sign_out_ignores_access_token:
  "sign_out lib self access_token s = sign_out lib self access_token' s \<and>
   (self < length (heap s) \<and> client (heap s ! self) = Some cl \<longrightarrow>
      sign_out lib self access_token s =
        (lib (calls s) (Call (PAttr cl ''auth'') ''sign_out'' [] []),
         s\<lparr>calls := calls s @ [Call (PAttr cl ''auth'') ''sign_out'' [] []]\<rparr>))"
proof
  show "sign_out lib self access_token s = sign_out lib self access_token' s"
    by (simp add: sign_out_def)
  show "self < length (heap s) \<and> client (heap s ! self) = Some cl \<longrightarrow>
      sign_out lib self access_token s =
        (lib (calls s) (Call (PAttr cl ''auth'') ''sign_out'' [] []),
         s\<lparr>calls := calls s @ [Call (PAttr cl ''auth'') ''sign_out'' [] []]\<rparr>)"
    by (simp add: sign_out_def bind_auth invoke_eq)
qed

theorem sign_out_ignores_access_token_witness:
  "sign_out stub 0 ''token-one'' after_new = sign_out stub 0 ''another-token'' after_new \<and>
   0 < length (heap after_new) \<and> client (heap after_new ! 0) = Some (PObj 0) \<and>
   sign_out stub 0 ''token-one'' after_new =
     (Inr (PObj 3),
      after_new\<lparr>calls :=
        [Call (PModule ''supabase'') ''create_client'' [PStr ''https://x.test'', PStr ''k''] [],
         Call (PAttr (PObj 0) ''auth'') ''sign_out'' [] []]\<rparr>)"
  using sign_out_ignores_access_token
          [where lib = stub and self = 0 and access_token = "''token-one''" and s = after_new
             and access_token' = "''another-token''" and cl = "PObj 0"]
  by (auto simp add: after_new_def stub_def)

text \<open>
  \<^bold>\<open>C8\<close>. With the URL or the key absent or empty, every access of the process,
  a construction or a request, the first one and each later one, ends in the
  configuration error: one error for each attempt. No attempt changes anything; after any
  sequence of accesses there is no stored instance, no manager object and no call to the
  library, so the handle is never constructed.
\<close>

theorem every_attempt_fails_and_stores_nothing:
  assumes "url = None \<or> url = Some [] \<or> key = None \<or> key = Some []"
  shows "run lib url key as initial =
           (map (\<lambda>a. case a of Construct \<Rightarrow> Handle (Inl (ValueError config_message))
                                | Request q \<Rightarrow> Reply (Inl (ValueError config_message))) as,
            \<lparr>cls_instance = None, heap = [], calls = []\<rparr>)"
proof -
  from assms have bad: "py_not url \<or> py_not key" by (auto simp: py_not_iff)
  have none: "cls_instance initial = None" by (simp add: initial_def)
  from run_missing_outcomes [OF bad none, of lib as]
  show ?thesis by (simp add: initial_def)
qed

theorem every_attempt_fails_and_stores_nothing_witness:
  "(None = (None :: string option) \<or> None = Some ([] :: string) \<or>
      Some ''k'' = None \<or> Some ''k'' = Some []) \<and>
   run stub None (Some ''k'') [Construct, Request (Sign_out ''t''), Construct] initial =
     ([Handle (Inl (ValueError config_message)), Reply (Inl (ValueError config_message)),
       Handle (Inl (ValueError config_message))],
      \<lparr>cls_instance = None, heap = [], calls = []\<rparr>)"
proof -
  have h: "None = (None :: string option) \<or> None = Some ([] :: string) \<or>
      Some ''k'' = None \<or> Some ''k'' = Some []" by simp
  have "run stub None (Some ''k'') [Construct, Request (Sign_out ''t''), Construct] initial =
     (map (\<lambda>a. case a of Construct \<Rightarrow> Handle (Inl (ValueError config_message))
                          | Request q \<Rightarrow> Reply (Inl (ValueError config_message)))
        [Construct, Request (Sign_out ''t''), Construct],
      \<lparr>cls_instance = None, heap = [], calls = []\<rparr>)"
    using h by (rule every_attempt_fails_and_stores_nothing)
  then show ?thesis by simp
qed

text \<open>
  The guard of \<^verbatim>\<open>__new__\<close> is evaluated again at each call made while no instance is
  stored, so the error is not raised once only: a second construction raises it again.
\<close>

theorem config_error_raised_at_second_attempt:
  "run stub (Some []) (Some ''k'') [Construct, Construct] initial =
     ([Handle (Inl (ValueError config_message)), Handle (Inl (ValueError config_message))],
      initial)"
  by (simp add: SupabaseManager_new_def initial_def)

text \<open>
  \<^bold>\<open>C9\<close>. On a constructed manager, \<^verbatim>\<open>sign_up\<close> is the single call
  \<^verbatim>\<open>auth.sign_up\<close> whose payload has the entries \<^verbatim>\<open>email\<close>, \<^verbatim>\<open>password\<close> and
  \<^verbatim>\<open>options\<close>, the last one a mapping with the entry \<^verbatim>\<open>data\<close>: the metadata that was
  passed, and \<^verbatim>\<open>None\<close> when the argument was omitted.
\<close>

theorem sign_up_always_sends_options_data:
  assumes "self < length (heap s)" and "client (heap s ! self) = Some cl"
  shows "sign_up lib self email password (Some md) s =
           invoke lib (PAttr cl ''auth'') ''sign_up''
             [PDict [(''email'', PStr email), (''password'', PStr password),
                     (''options'', PDict [(''data'', md)])]] [] s \<and>
         sign_up lib self email password None s =
           invoke lib (PAttr cl ''auth'') ''sign_up''
             [PDict [(''email'', PStr email), (''password'', PStr password),
                     (''options'', PDict [(''data'', PNone)])]] [] s"
  by (simp add: sign_up_def bind_auth [OF assms])

theorem sign_up_always_sends_options_data_witness:
  "0 < length (heap after_new) \<and> client (heap after_new ! 0) = Some (PObj 0) \<and>
   calls (snd (sign_up stub 0 ''a@b.com'' ''pw'' (Some (PDict [(''name'', PStr ''Ann'')])) after_new)) =
     [Call (PModule ''supabase'') ''create_client'' [PStr ''https://x.test'', PStr ''k''] [],
      Call (PAttr (PObj 0) ''auth'') ''sign_up''
        [PDict [(''email'', PStr ''a@b.com''), (''password'', PStr ''pw''),
                (''options'', PDict [(''data'', PDict [(''name'', PStr ''Ann'')])])]] []] \<and>
   calls (snd (sign_up stub 0 ''a@b.com'' ''pw'' None after_new)) =
     [Call (PModule ''supabase'') ''create_client'' [PStr ''https://x.test'', PStr ''k''] [],
      Call (PAttr (PObj 0) ''auth'') ''sign_up''
        [PDict [(''email'', PStr ''a@b.com''), (''password'', PStr ''pw''),
                (''options'', PDict [(''data'', PNone)])]] []]"
proof -
  have h: "0 < length (heap after_new)" "client (heap after_new ! 0) = Some (PObj 0)"
    by (simp_all add: after_new_def)
  from sign_up_always_sends_options_data
         [where self = 0 and s = after_new and cl = "PObj 0" and lib = stub and email = "''a@b.com''"
            and password = "''pw''" and md = "PDict [(''name'', PStr ''Ann'')]"] h
  show ?thesis by (simp add: after_new_def invoke_eq)
qed

text \<open>
  \<^bold>\<open>C10\<close>. On a constructed manager, when \<^verbatim>\<open>storage.from_(bucket_name)\<close> answers
  with a bucket object, \<^verbatim>\<open>delete_file\<close> calls \<^verbatim>\<open>remove\<close> on that object with one
  positional argument, the one-element list \<^verbatim>\<open>[file_path]\<close>, and its outcome is the
  library's answer to that call.
\<close>

theorem delete_file_wraps_path_in_list:
  assumes "self < length (heap s)" and "client (heap s ! self) = Some cl"
    and "lib (calls s) (Call (PAttr cl ''storage'') ''from_'' [PStr bucket_name] []) = Inr b"
  shows "delete_file lib self bucket_name file_path s =
           (lib (calls s @ [Call (PAttr cl ''storage'') ''from_'' [PStr bucket_name] []])
              (Call b ''remove'' [PList [PStr file_path]] []),
            s\<lparr>calls := calls s @
              [Call (PAttr cl ''storage'') ''from_'' [PStr bucket_name] [],
               Call b ''remove'' [PList [PStr file_path]] []]\<rparr>)"
  unfolding delete_file_def bind_storage [OF assms(1,2)]
  by (simp add: invoke_eq bindE_def assms(3))

theorem delete_file_wraps_path_in_list_witness:
  "0 < length (heap after_new) \<and> client (heap after_new ! 0) = Some (PObj 0) \<and>
   stub (calls after_new) (Call (PAttr (PObj 0) ''storage'') ''from_'' [PStr ''docs''] []) = Inr (PObj 1) \<and>
   delete_file stub 0 ''docs'' ''f.txt'' after_new =
     (Inr (PObj 4),
      after_new\<lparr>calls :=
        [Call (PModule ''supabase'') ''create_client'' [PStr ''https://x.test'', PStr ''k''] [],
         Call (PAttr (PObj 0) ''storage'') ''from_'' [PStr ''docs''] [],
         Call (PObj 1) ''remove'' [PList [PStr ''f.txt'']] []]\<rparr>)"
proof -
  have h: "0 < length (heap after_new)" "client (heap after_new ! 0) = Some (PObj 0)"
    "stub (calls after_new) (Call (PAttr (PObj 0) ''storage'') ''from_'' [PStr ''docs''] []) = Inr (PObj 1)"
    by (simp_all add: after_new_def stub_def)
  from delete_file_wraps_path_in_list
         [where self = 0 and s = after_new and cl = "PObj 0" and lib = stub and bucket_name = "''docs''"
            and b = "PObj 1" and file_path = "''f.txt''"] h
  show ?thesis by (simp add: after_new_def stub_def)
qed

end
